theory Spec2Isabelle
  imports Main
begin

section \<open>The construct library, as far as the stack uses it\<close>

text \<open>
  The stack of \<^verbatim>\<open>source/constructs/lib/constructs-stack.ts\<close> is assembled by one
  constructor that appends declarations to a tree of constructs. Every
  \<^verbatim>\<open>new CfnX(this, id, props)\<close> registers a child of the stack under \<^verbatim>\<open>id\<close>; a second
  child with the same id makes the constructor throw, and so does a lookup of a child that
  is not there. Both are values of \<open>error\<close> here.
\<close>

datatype error =
    DuplicateConstruct string
  | NoChild string

definition bind :: "error + 'a \<Rightarrow> ('a \<Rightarrow> error + 'b) \<Rightarrow> error + 'b" where
  "bind m f = (case m of Inl e \<Rightarrow> Inl e | Inr x \<Rightarrow> f x)"

text \<open>
  What lives below the nested construct: the only thing the stack does with it is a lookup
  by id. The cast \<^verbatim>\<open>as cdk.CfnCondition\<close> is erased at run time, so whatever construct
  carries the id is what the output holds as its condition.
\<close>

datatype IConstruct =
    CfnCondition string
  | CfnResource string
  | Construct string "IConstruct list"

fun construct_id :: "IConstruct \<Rightarrow> string" where
  "construct_id (CfnCondition i) = i"
| "construct_id (CfnResource i) = i"
| "construct_id (Construct i cs) = i"

text \<open>\<^verbatim>\<open>node.findChild(id)\<close>: the child with that id, or an error.\<close>

definition findChild :: "IConstruct list \<Rightarrow> string \<Rightarrow> error + IConstruct" where
  "findChild cs i =
     (case find (\<lambda>c. construct_id c = i) cs of
        None \<Rightarrow> Inl (NoChild i)
      | Some c \<Rightarrow> Inr c)"

text \<open>
  The property bags. Every field of \<^verbatim>\<open>CfnParameterProps\<close> and \<^verbatim>\<open>CfnOutputProps\<close> is
  optional in TypeScript; a key that the object literal leaves out is \<open>None\<close>.
\<close>

record CfnParameterProps =
  type :: "string option"
  description :: "string option"
  default :: "string option"
  allowedValues :: "string list option"
  allowedPattern :: "string option"

record CfnParameter =
  logicalId :: string
  props :: CfnParameterProps

text \<open>
  An output's value is an unresolved expression: \<^verbatim>\<open>Fn.sub\<close> of a template string, or a
  reference to a logical id (\<^verbatim>\<open>Fn.ref\<close>, and \<^verbatim>\<open>valueAsString\<close> of a parameter).
\<close>

datatype Token =
    Fn_sub string
  | Fn_ref string

definition valueAsString :: "CfnParameter \<Rightarrow> Token" where
  "valueAsString p = Fn_ref (logicalId p)"

record CfnOutputProps =
  out_value :: Token
  out_description :: "string option"
  out_condition :: "IConstruct option"

record CfnOutput =
  out_id :: string
  out_logicalId :: string
  out_props :: CfnOutputProps

type_synonym CfnMappingProps = "(string \<times> (string \<times> string) list) list"

record ParameterGroup =
  Label_default :: string
  Parameters :: "string list"

record ServerlessImageHandlerProps =
  corsEnabledParameter :: CfnParameter
  corsOriginParameter :: CfnParameter
  sourceBucketsParameter :: CfnParameter
  deployDemoUiParameter :: CfnParameter
  logRetentionPeriodParameter :: CfnParameter
  autoWebPParameter :: CfnParameter

datatype StackChild =
    ParameterChild CfnParameter
  | MappingChild CfnMappingProps
  | OutputChild CfnOutput
  | ConstructChild "IConstruct list"

text \<open>
  The stack under construction: its children in the order of their creation, and the three
  template options the constructor assigns.
\<close>

record Stack =
  children :: "(string \<times> StackChild) list"
  templateOptions_description :: "string option"
  templateOptions_templateFormatVersion :: "string option"
  templateOptions_metadata :: "(string \<times> ParameterGroup list) list"

definition new_Stack :: Stack where
  "new_Stack =
     \<lparr>children = [], templateOptions_description = None,
      templateOptions_templateFormatVersion = None, templateOptions_metadata = []\<rparr>"

definition addChild :: "Stack \<Rightarrow> string \<Rightarrow> StackChild \<Rightarrow> error + Stack" where
  "addChild s i c =
     (if i \<in> set (map fst (children s)) then Inl (DuplicateConstruct i)
      else Inr (s\<lparr>children := children s @ [(i, c)]\<rparr>))"

text \<open>
  A parameter or output created directly in the stack has its construct id as logical id,
  until \<^verbatim>\<open>overrideLogicalId\<close> replaces it.
\<close>

definition new_CfnParameter ::
    "Stack \<Rightarrow> string \<Rightarrow> CfnParameterProps \<Rightarrow> error + (Stack \<times> CfnParameter)" where
  "new_CfnParameter s i ps =
     (let p = \<lparr>logicalId = i, props = ps\<rparr>
      in bind (addChild s i (ParameterChild p)) (\<lambda>s'. Inr (s', p)))"

definition new_CfnMapping :: "Stack \<Rightarrow> string \<Rightarrow> CfnMappingProps \<Rightarrow> error + Stack" where
  "new_CfnMapping s i m = addChild s i (MappingChild m)"

definition new_CfnOutput :: "Stack \<Rightarrow> string \<Rightarrow> CfnOutputProps \<Rightarrow> error + Stack" where
  "new_CfnOutput s i ps =
     addChild s i (OutputChild \<lparr>out_id = i, out_logicalId = i, out_props = ps\<rparr>)"

text \<open>
  \<^verbatim>\<open>overrideLogicalId\<close> is called on the output object just created; the object is the
  stack's child with that construct id.
\<close>

fun override_child :: "string \<Rightarrow> string \<Rightarrow> (string \<times> StackChild) \<Rightarrow> (string \<times> StackChild)" where
  "override_child i l (j, OutputChild out) =
     (if j = i then (j, OutputChild (out\<lparr>out_logicalId := l\<rparr>)) else (j, OutputChild out))"
| "override_child i l (j, c) = (j, c)"

definition overrideLogicalId :: "Stack \<Rightarrow> string \<Rightarrow> string \<Rightarrow> Stack" where
  "overrideLogicalId s i l = s\<lparr>children := map (override_child i l) (children s)\<rparr>"

text \<open>
  The nested construct is a class of this repository that is defined in another file. The
  stack's constructor is parametric in it: \<open>sih\<close> maps the properties it is given to the
  constructs created below its node.
\<close>

definition new_ServerlessImageHandler ::
    "(ServerlessImageHandlerProps \<Rightarrow> IConstruct list) \<Rightarrow> Stack \<Rightarrow> string
       \<Rightarrow> ServerlessImageHandlerProps \<Rightarrow> error + (Stack \<times> IConstruct list)" where
  "new_ServerlessImageHandler sih s i ps =
     (let node = sih ps
      in bind (addChild s i (ConstructChild node)) (\<lambda>s'. Inr (s', node)))"

text \<open>A template literal turns \<^verbatim>\<open>undefined\<close> into the text \<^verbatim>\<open>undefined\<close>.\<close>

definition template_literal :: "string option \<Rightarrow> string" where
  "template_literal v = (case v of None \<Rightarrow> ''undefined'' | Some s \<Rightarrow> s)"

section \<open>The module\<close>

text \<open>
  Line 8, \<^verbatim>\<open>const { VERSION } = process.env\<close>, runs when the module is loaded. The
  process environment is a map from names to strings.
\<close>

type_synonym process_env = "string \<rightharpoonup> string"

record module =
  VERSION :: "string option"

definition load_module :: "process_env \<Rightarrow> module" where
  "load_module env = \<lparr>VERSION = env ''VERSION''\<rparr>"

definition description_text :: string where
  "description_text = ''(SO0023) - Serverless Image Handler with aws-solutions-constructs: This template deploys and configures a serverless architecture that is optimized for dynamic image manipulation and delivery at low latency and cost. Leverages SharpJS for image processing. Template version ''"

text \<open>
  The property objects of the six parameters (lines 18 to 52), in the order of their
  declaration.
\<close>

definition corsEnabledParameter_props :: CfnParameterProps where
  "corsEnabledParameter_props =
     \<lparr>type = Some ''String'',
      description = Some ''Would you like to enable Cross-Origin Resource Sharing (CORS) for the image handler API? Select 'Yes' if so.'',
      default = Some ''No'',
      allowedValues = Some [''Yes'', ''No''],
      allowedPattern = None\<rparr>"

definition corsOriginParameter_props :: CfnParameterProps where
  "corsOriginParameter_props =
     \<lparr>type = Some ''String'',
      description = Some ''If you selected 'Yes' above, please specify an origin value here. Supports multiple origins given either as comma-separated string or RegExp.'',
      default = Some ''*'',
      allowedValues = None,
      allowedPattern = None\<rparr>"

definition sourceBucketsParameter_props :: CfnParameterProps where
  "sourceBucketsParameter_props =
     \<lparr>type = Some ''String'',
      description = Some ''(Required) List the buckets (comma-separated) within your account that contain original image files. If you plan to use Thumbor or Custom image requests with this solution, the source bucket for those requests will be the first bucket listed in this field.'',
      default = Some ''defaultBucket, bucketNo2, bucketNo3, ...'',
      allowedValues = None,
      allowedPattern = Some ''.+''\<rparr>"

definition deployDemoUiParameter_props :: CfnParameterProps where
  "deployDemoUiParameter_props =
     \<lparr>type = Some ''String'',
      description = Some ''Would you like to deploy a demo UI to explore the features and capabilities of this solution? This will create an additional Amazon S3 bucket and Amazon CloudFront distribution in your account.'',
      default = Some ''Yes'',
      allowedValues = Some [''Yes'', ''No''],
      allowedPattern = None\<rparr>"

definition logRetentionPeriodParameter_props :: CfnParameterProps where
  "logRetentionPeriodParameter_props =
     \<lparr>type = Some ''Number'',
      description = Some ''This solution automatically logs events to Amazon CloudWatch. Select the amount of time for CloudWatch logs from this solution to be retained (in days).'',
      default = Some ''1'',
      allowedValues = Some [''1'', ''3'', ''5'', ''7'', ''14'', ''30'', ''60'', ''90'', ''120'',
        ''150'', ''180'', ''365'', ''400'', ''545'', ''731'', ''1827'', ''3653''],
      allowedPattern = None\<rparr>"

definition autoWebPParameter_props :: CfnParameterProps where
  "autoWebPParameter_props =
     \<lparr>type = Some ''String'',
      description = Some ''Would you like to enable automatic WebP based on accept headers? Select 'Yes' if so.'',
      default = Some ''No'',
      allowedValues = Some [''Yes'', ''No''],
      allowedPattern = None\<rparr>"

text \<open>
  The property objects of the six outputs (lines 107 to 132), as functions of the local
  variables they mention: a parameter \<open>p\<close>, a looked-up condition \<open>c\<close>.
\<close>

definition ApiEndpoint_props :: CfnOutputProps where
  "ApiEndpoint_props =
     \<lparr>out_value = Fn_sub ''https://${ImageHandlerDistribution.DomainName}'',
      out_description = Some ''Link to API endpoint for sending image requests to.'',
      out_condition = None\<rparr>"

definition DemoUrl_props :: "IConstruct \<Rightarrow> CfnOutputProps" where
  "DemoUrl_props c =
     \<lparr>out_value = Fn_sub ''https://${DemoDistribution.DomainName}/index.html'',
      out_description = Some ''Link to the demo user interface for the solution.'',
      out_condition = Some c\<rparr>"

definition SourceBucketsOutput_props :: "CfnParameter \<Rightarrow> CfnOutputProps" where
  "SourceBucketsOutput_props p =
     \<lparr>out_value = valueAsString p,
      out_description = Some ''Amazon S3 bucket location containing original image files.'',
      out_condition = None\<rparr>"

definition CorsEnabledOutput_props :: "CfnParameter \<Rightarrow> CfnOutputProps" where
  "CorsEnabledOutput_props p =
     \<lparr>out_value = valueAsString p,
      out_description = Some ''Indicates whether Cross-Origin Resource Sharing (CORS) has been enabled for the image handler API.'',
      out_condition = None\<rparr>"

definition CorsOriginOutput_props :: "CfnParameter \<Rightarrow> IConstruct \<Rightarrow> CfnOutputProps" where
  "CorsOriginOutput_props p c =
     \<lparr>out_value = valueAsString p,
      out_description = Some ''Origin value returned in the Access-Control-Allow-Origin header of image handler API responses.'',
      out_condition = Some c\<rparr>"

definition LogRetentionPeriodOutput_props :: CfnOutputProps where
  "LogRetentionPeriodOutput_props =
     \<lparr>out_value = Fn_ref ''LogRetentionPeriod'',
      out_description = Some ''Number of days for event logs from Lambda to be retained in CloudWatch.'',
      out_condition = None\<rparr>"

text \<open>
  The constructor, statement by statement. \<open>m\<close> is the loaded module, whose constant
  \<^verbatim>\<open>VERSION\<close> the constructor refers to; \<open>env\<close> is the process environment at the time
  of the call, which the constructor can reach and never reads; \<open>sih\<close> is the class of
  the nested construct. The arguments \<^verbatim>\<open>scope\<close>, \<^verbatim>\<open>id\<close> and \<^verbatim>\<open>props\<close> are passed on to
  the constructor of \<^verbatim>\<open>cdk.Stack\<close> (line 15) and are used nowhere else, so the stack
  starts out as \<open>new_Stack\<close>. The result is the stack, or the error of the first
  statement that throws.
\<close>

definition ConstructsStack ::
    "module \<Rightarrow> process_env \<Rightarrow> (ServerlessImageHandlerProps \<Rightarrow> IConstruct list)
       \<Rightarrow> error + Stack" where
  "ConstructsStack m env sih =
   bind (new_CfnParameter new_Stack ''CorsEnabled'' corsEnabledParameter_props)
     (\<lambda>(s, corsEnabledParameter).
   bind (new_CfnParameter s ''CorsOrigin'' corsOriginParameter_props)
     (\<lambda>(s, corsOriginParameter).
   bind (new_CfnParameter s ''SourceBuckets'' sourceBucketsParameter_props)
     (\<lambda>(s, sourceBucketsParameter).
   bind (new_CfnParameter s ''DeployDemoUI'' deployDemoUiParameter_props)
     (\<lambda>(s, deployDemoUiParameter).
   bind (new_CfnParameter s ''LogRetentionPeriod'' logRetentionPeriodParameter_props)
     (\<lambda>(s, logRetentionPeriodParameter).
   bind (new_CfnParameter s ''AutoWebP'' autoWebPParameter_props)
     (\<lambda>(s, autoWebPParameter).
   let s = s\<lparr>templateOptions_description :=
               Some (description_text @ template_literal (VERSION m))\<rparr>;
       s = s\<lparr>templateOptions_templateFormatVersion := Some ''2010-09-09''\<rparr>;
       s = s\<lparr>templateOptions_metadata :=
             [(''AWS::CloudFormation::Interface'',
               [\<lparr>Label_default = ''CORS Options'',
                 Parameters = [logicalId corsEnabledParameter, logicalId corsOriginParameter]\<rparr>,
                \<lparr>Label_default = ''Image Sources'',
                 Parameters = [logicalId sourceBucketsParameter]\<rparr>,
                \<lparr>Label_default = ''Demo UI'',
                 Parameters = [logicalId deployDemoUiParameter]\<rparr>,
                \<lparr>Label_default = ''Event Logging'',
                 Parameters = [logicalId logRetentionPeriodParameter]\<rparr>])]\<rparr>
   in
   bind (new_CfnMapping s ''Send'' [(''AnonymousUsage'', [(''Data'', ''Yes'')])]) (\<lambda>s.
   let sihProps =
         \<lparr>corsEnabledParameter = corsEnabledParameter,
          corsOriginParameter = corsOriginParameter,
          sourceBucketsParameter = sourceBucketsParameter,
          deployDemoUiParameter = deployDemoUiParameter,
          logRetentionPeriodParameter = logRetentionPeriodParameter,
          autoWebPParameter = autoWebPParameter\<rparr>
   in
   bind (new_ServerlessImageHandler sih s ''ServerlessImageHandler'' sihProps)
     (\<lambda>(s, serverlessImageHander).
   bind (new_CfnOutput s ''ApiEndpoint'' ApiEndpoint_props) (\<lambda>s.
   bind (findChild serverlessImageHander ''DeployDemoUICondition'') (\<lambda>c.
   bind (new_CfnOutput s ''DemoUrl'' (DemoUrl_props c)) (\<lambda>s.
   bind (new_CfnOutput s ''SourceBucketsOutput''
          (SourceBucketsOutput_props sourceBucketsParameter)) (\<lambda>s.
   let s = overrideLogicalId s ''SourceBucketsOutput'' ''SourceBuckets'' in
   bind (new_CfnOutput s ''CorsEnabledOutput''
          (CorsEnabledOutput_props corsEnabledParameter)) (\<lambda>s.
   let s = overrideLogicalId s ''CorsEnabledOutput'' ''CorsEnabled'' in
   bind (findChild serverlessImageHander ''EnableCorsCondition'') (\<lambda>c.
   bind (new_CfnOutput s ''CorsOriginOutput''
          (CorsOriginOutput_props corsOriginParameter c)) (\<lambda>s.
   let s = overrideLogicalId s ''CorsOriginOutput'' ''CorsOrigin'' in
   bind (new_CfnOutput s ''LogRetentionPeriodOutput'' LogRetentionPeriodOutput_props) (\<lambda>s.
   let s = overrideLogicalId s ''LogRetentionPeriodOutput'' ''LogRetentionPeriod'' in
   Inr s))))))))))))))))"


section \<open>Reading the built stack\<close>

fun parameters_of_children :: "(string \<times> StackChild) list \<Rightarrow> CfnParameter list" where
  "parameters_of_children [] = []"
| "parameters_of_children ((i, ParameterChild p) # cs) = p # parameters_of_children cs"
| "parameters_of_children (c # cs) = parameters_of_children cs"

fun outputs_of_children :: "(string \<times> StackChild) list \<Rightarrow> CfnOutput list" where
  "outputs_of_children [] = []"
| "outputs_of_children ((i, OutputChild out) # cs) = out # outputs_of_children cs"
| "outputs_of_children (c # cs) = outputs_of_children cs"

definition parameters_of :: "Stack \<Rightarrow> CfnParameter list" where
  "parameters_of t = parameters_of_children (children t)"

definition outputs_of :: "Stack \<Rightarrow> CfnOutput list" where
  "outputs_of t = outputs_of_children (children t)"

definition parameter_groups :: "Stack \<Rightarrow> ParameterGroup list" where
  "parameter_groups t =
     (case map_of (templateOptions_metadata t) ''AWS::CloudFormation::Interface'' of
        None \<Rightarrow> []
      | Some gs \<Rightarrow> gs)"

definition grouped_parameters :: "Stack \<Rightarrow> string list" where
  "grouped_parameters t = concat (map Parameters (parameter_groups t))"

definition declared_parameters :: "Stack \<Rightarrow> string list" where
  "declared_parameters t = map logicalId (parameters_of t)"

text \<open>
  The groups partition the declared parameters: the four labels in their order, no name
  twice in the groups, and the grouped names are the declared names.
\<close>

definition groups_partition_parameters :: "Stack \<Rightarrow> bool" where
  "groups_partition_parameters t =
     (map Label_default (parameter_groups t) =
        [''CORS Options'', ''Image Sources'', ''Demo UI'', ''Event Logging'']
      \<and> distinct (grouped_parameters t)
      \<and> set (grouped_parameters t) = set (declared_parameters t))"

text \<open>An output whose visible identifier is no longer its construction name.\<close>

definition overridden :: "CfnOutput \<Rightarrow> bool" where
  "overridden out = (out_logicalId out \<noteq> out_id out)"

text \<open>
  What a parameter declaration registers: a name, a type that is \<^verbatim>\<open>String\<close> or
  \<^verbatim>\<open>Number\<close>, a description and a default; and whether it declares a constraint, an
  allowed-value set or an allowed pattern.
\<close>

definition registers_basics :: "CfnParameter \<Rightarrow> bool" where
  "registers_basics p =
     (logicalId p \<noteq> []
      \<and> (type (props p) = Some ''String'' \<or> type (props p) = Some ''Number'')
      \<and> description (props p) \<noteq> None
      \<and> default (props p) \<noteq> None)"

definition has_constraint :: "CfnParameterProps \<Rightarrow> bool" where
  "has_constraint ps =
     (case allowedValues ps of
        Some vs \<Rightarrow> True
      | None \<Rightarrow> (case allowedPattern ps of Some pat \<Rightarrow> True | None \<Rightarrow> False))"

definition fully_declared :: "CfnParameter \<Rightarrow> bool" where
  "fully_declared p = (registers_basics p \<and> has_constraint (props p))"

section \<open>The values a built stack is given by the provisioning engine\<close>

text \<open>
  The engine checks a supplied value against \<^verbatim>\<open>AllowedPattern\<close> as a regular expression
  that has to match the whole value. The fragment read here is what the stack's one pattern
  needs and a little more: a sequence of single characters or dots, each with an optional
  postfix \<^verbatim>\<open>+\<close>, \<^verbatim>\<open>*\<close> or \<^verbatim>\<open>?\<close>. Any other operator makes \<open>parse_pattern\<close> give up.
\<close>

datatype atom = AnyChar | Literal char

datatype quantifier = Once | OneOrMore | ZeroOrMore | Optional

definition operator_char :: "char \<Rightarrow> bool" where
  "operator_char c = (c \<in> set ''+*?()[]{}|^$'' \<or> c = CHR 0x5C)"

definition atom_of :: "char \<Rightarrow> atom" where
  "atom_of c = (if c = CHR ''.'' then AnyChar else Literal c)"

fun parse_pattern :: "string \<Rightarrow> (atom \<times> quantifier) list option" where
  "parse_pattern [] = Some []"
| "parse_pattern [c] = (if operator_char c then None else Some [(atom_of c, Once)])"
| "parse_pattern (c # q # cs) =
     (if operator_char c then None
      else if q = CHR ''+'' then map_option ((#) (atom_of c, OneOrMore)) (parse_pattern cs)
      else if q = CHR ''*'' then map_option ((#) (atom_of c, ZeroOrMore)) (parse_pattern cs)
      else if q = CHR ''?'' then map_option ((#) (atom_of c, Optional)) (parse_pattern cs)
      else map_option ((#) (atom_of c, Once)) (parse_pattern (q # cs)))"

text \<open>A dot matches every character but a line terminator.\<close>

fun atom_matches :: "atom \<Rightarrow> char \<Rightarrow> bool" where
  "atom_matches AnyChar c = (c \<noteq> CHR 0x0A \<and> c \<noteq> CHR 0x0D)"
| "atom_matches (Literal l) c = (c = l)"

fun matches :: "(atom \<times> quantifier) list \<Rightarrow> string \<Rightarrow> bool" where
  "matches [] s = (s = [])"
| "matches ((a, Once) # p) [] = False"
| "matches ((a, Once) # p) (c # cs) = (atom_matches a c \<and> matches p cs)"
| "matches ((a, OneOrMore) # p) [] = False"
| "matches ((a, OneOrMore) # p) (c # cs) =
     (atom_matches a c \<and> matches ((a, ZeroOrMore) # p) cs)"
| "matches ((a, ZeroOrMore) # p) [] = matches p []"
| "matches ((a, ZeroOrMore) # p) (c # cs) =
     (matches p (c # cs) \<or> atom_matches a c \<and> matches ((a, ZeroOrMore) # p) cs)"
| "matches ((a, Optional) # p) [] = matches p []"
| "matches ((a, Optional) # p) (c # cs) =
     (matches p (c # cs) \<or> atom_matches a c \<and> matches p cs)"

definition matches_pattern :: "string \<Rightarrow> string \<Rightarrow> bool" where
  "matches_pattern pat v =
     (case parse_pattern pat of None \<Rightarrow> False | Some p \<Rightarrow> matches p v)"

text \<open>
  A value satisfies a parameter's constraint when it is one of the allowed values, if there
  are any, and matches the allowed pattern, if there is one.
\<close>

definition satisfies_constraint :: "CfnParameterProps \<Rightarrow> string \<Rightarrow> bool" where
  "satisfies_constraint ps v =
     ((case allowedValues ps of None \<Rightarrow> True | Some vs \<Rightarrow> v \<in> set vs)
      \<and> (case allowedPattern ps of None \<Rightarrow> True | Some pat \<Rightarrow> matches_pattern pat v))"

definition default_satisfies_constraint :: "CfnParameter \<Rightarrow> bool" where
  "default_satisfies_constraint p =
     (case default (props p) of
        None \<Rightarrow> False
      | Some v \<Rightarrow> satisfies_constraint (props p) v)"

text \<open>The number that an allowed value of a \<^verbatim>\<open>Number\<close> parameter denotes.\<close>

fun position :: "char \<Rightarrow> string \<Rightarrow> nat option" where
  "position c [] = None"
| "position c (d # ds) = (if c = d then Some 0 else map_option Suc (position c ds))"

definition digit :: "char \<Rightarrow> nat option" where
  "digit c = position c ''0123456789''"

fun decimal_from :: "nat \<Rightarrow> string \<Rightarrow> nat option" where
  "decimal_from n [] = Some n"
| "decimal_from n (c # cs) =
     (case digit c of None \<Rightarrow> None | Some d \<Rightarrow> decimal_from (10 * n + d) cs)"

definition decimal :: "string \<Rightarrow> nat option" where
  "decimal s = (if s = [] then None else decimal_from 0 s)"

text \<open>A parameter that the deployer does not supply takes its default.\<close>

definition effective_value :: "(string \<rightharpoonup> string) \<Rightarrow> CfnParameter \<Rightarrow> string option" where
  "effective_value supplied p =
     (case supplied (logicalId p) of None \<Rightarrow> default (props p) | Some v \<Rightarrow> Some v)"

text \<open>
  Modelled from the spec: the provisioning engine's treatment of the outputs of a template,
  which is no code of this repository. The spec says of a guarded output that it must not
  be emitted when its condition evaluates false, and is present when it evaluates true; an
  output without a guard is always emitted. \<open>holds\<close> is the engine's verdict on each
  condition of the nested construct, by the condition's id.

  The casts of lines 114 and 127 are not checked, so what an output holds as its condition
  need not be one. Only a condition is a gate. A plain construct has no logical id, the
  output is rendered without a \<^verbatim>\<open>Condition\<close> entry and is always emitted. Another
  element of the template is rendered as the name of a condition that does not exist, and
  the engine refuses the template: that is \<open>None\<close>.
\<close>

fun verdict :: "(string \<Rightarrow> bool) \<Rightarrow> IConstruct \<Rightarrow> bool option" where
  "verdict holds (CfnCondition i) = Some (holds i)"
| "verdict holds (CfnResource i) = None"
| "verdict holds (Construct i cs) = Some True"

definition emitted :: "(string \<Rightarrow> bool) \<Rightarrow> CfnOutput \<Rightarrow> bool option" where
  "emitted holds out =
     (case out_condition (out_props out) of
        None \<Rightarrow> Some True
      | Some c \<Rightarrow> verdict holds c)"

definition parameter_named :: "Stack \<Rightarrow> string \<Rightarrow> CfnParameter option" where
  "parameter_named t i = find (\<lambda>p. logicalId p = i) (parameters_of t)"

section \<open>The nested construct and one concrete build\<close>

text \<open>
  Modelled from the spec: the class \<^verbatim>\<open>ServerlessImageHandler\<close> of
  \<^verbatim>\<open>./serverless-image-handler\<close>, which is not among the sources. The spec says that it
  creates the conditions \<^verbatim>\<open>DeployDemoUICondition\<close> and \<^verbatim>\<open>EnableCorsCondition\<close> and two
  resources, an API distribution and a demo distribution, whatever the properties are. The
  theorems below hold for every nested construct; this one is the concrete input of their
  instances.
\<close>

definition ServerlessImageHandler :: "ServerlessImageHandlerProps \<Rightarrow> IConstruct list" where
  "ServerlessImageHandler ps =
     [CfnCondition ''DeployDemoUICondition'', CfnCondition ''EnableCorsCondition'',
      CfnResource ''ImageHandlerDistribution'', CfnResource ''DemoDistribution'']"

text \<open>
  The properties that the constructor hands to the nested construct (lines 94 to 101), with
  the six parameter objects written out.
\<close>

definition sihProps :: ServerlessImageHandlerProps where
  "sihProps =
     \<lparr>corsEnabledParameter = \<lparr>logicalId = ''CorsEnabled'', props = corsEnabledParameter_props\<rparr>,
      corsOriginParameter = \<lparr>logicalId = ''CorsOrigin'', props = corsOriginParameter_props\<rparr>,
      sourceBucketsParameter =
        \<lparr>logicalId = ''SourceBuckets'', props = sourceBucketsParameter_props\<rparr>,
      deployDemoUiParameter =
        \<lparr>logicalId = ''DeployDemoUI'', props = deployDemoUiParameter_props\<rparr>,
      logRetentionPeriodParameter =
        \<lparr>logicalId = ''LogRetentionPeriod'', props = logRetentionPeriodParameter_props\<rparr>,
      autoWebPParameter = \<lparr>logicalId = ''AutoWebP'', props = autoWebPParameter_props\<rparr>\<rparr>"

text \<open>
  The stack that the constructor returns when both lookups succeed, written out as a value:
  \<open>node\<close> is what the nested construct created, \<open>c1\<close> and \<open>c2\<close> are the two constructs
  found in it. Lemma \<open>ConstructsStack_closed\<close> proves that this is what the constructor
  computes.
\<close>

definition synthesized :: "module \<Rightarrow> IConstruct list \<Rightarrow> IConstruct \<Rightarrow> IConstruct \<Rightarrow> Stack" where
  "synthesized m node c1 c2 =
     \<lparr>children =
        [(''CorsEnabled'', ParameterChild (corsEnabledParameter sihProps)),
         (''CorsOrigin'', ParameterChild (corsOriginParameter sihProps)),
         (''SourceBuckets'', ParameterChild (sourceBucketsParameter sihProps)),
         (''DeployDemoUI'', ParameterChild (deployDemoUiParameter sihProps)),
         (''LogRetentionPeriod'', ParameterChild (logRetentionPeriodParameter sihProps)),
         (''AutoWebP'', ParameterChild (autoWebPParameter sihProps)),
         (''Send'', MappingChild [(''AnonymousUsage'', [(''Data'', ''Yes'')])]),
         (''ServerlessImageHandler'', ConstructChild node),
         (''ApiEndpoint'', OutputChild
            \<lparr>out_id = ''ApiEndpoint'', out_logicalId = ''ApiEndpoint'',
             out_props = ApiEndpoint_props\<rparr>),
         (''DemoUrl'', OutputChild
            \<lparr>out_id = ''DemoUrl'', out_logicalId = ''DemoUrl'', out_props = DemoUrl_props c1\<rparr>),
         (''SourceBucketsOutput'', OutputChild
            \<lparr>out_id = ''SourceBucketsOutput'', out_logicalId = ''SourceBuckets'',
             out_props = SourceBucketsOutput_props (sourceBucketsParameter sihProps)\<rparr>),
         (''CorsEnabledOutput'', OutputChild
            \<lparr>out_id = ''CorsEnabledOutput'', out_logicalId = ''CorsEnabled'',
             out_props = CorsEnabledOutput_props (corsEnabledParameter sihProps)\<rparr>),
         (''CorsOriginOutput'', OutputChild
            \<lparr>out_id = ''CorsOriginOutput'', out_logicalId = ''CorsOrigin'',
             out_props = CorsOriginOutput_props (corsOriginParameter sihProps) c2\<rparr>),
         (''LogRetentionPeriodOutput'', OutputChild
            \<lparr>out_id = ''LogRetentionPeriodOutput'', out_logicalId = ''LogRetentionPeriod'',
             out_props = LogRetentionPeriodOutput_props\<rparr>)],
      templateOptions_description = Some (description_text @ template_literal (VERSION m)),
      templateOptions_templateFormatVersion = Some ''2010-09-09'',
      templateOptions_metadata =
        [(''AWS::CloudFormation::Interface'',
          [\<lparr>Label_default = ''CORS Options'', Parameters = [''CorsEnabled'', ''CorsOrigin'']\<rparr>,
           \<lparr>Label_default = ''Image Sources'', Parameters = [''SourceBuckets'']\<rparr>,
           \<lparr>Label_default = ''Demo UI'', Parameters = [''DeployDemoUI'']\<rparr>,
           \<lparr>Label_default = ''Event Logging'', Parameters = [''LogRetentionPeriod'']\<rparr>])]\<rparr>"

text \<open>
  A process environment with \<^verbatim>\<open>VERSION\<close> set, one without, and the stacks built from
  them with the nested construct above.
\<close>

definition env_v510 :: process_env where
  "env_v510 = [''VERSION'' \<mapsto> ''v5.1.0'']"

definition env_unset :: process_env where
  "env_unset = [''HOME'' \<mapsto> ''/root'']"

definition stack_of_env :: "process_env \<Rightarrow> Stack" where
  "stack_of_env env =
     synthesized (load_module env) (ServerlessImageHandler sihProps)
       (CfnCondition ''DeployDemoUICondition'') (CfnCondition ''EnableCorsCondition'')"

section \<open>The constructor in closed form\<close>

lemma bind_Inr: "bind (Inr x) f = f x"
  by (simp add: bind_def)

lemma bind_Inl: "bind (Inl e) f = Inl e"
  by (simp add: bind_def)

lemmas build_defs =
  ConstructsStack_def new_CfnParameter_def new_CfnMapping_def new_CfnOutput_def
  new_ServerlessImageHandler_def addChild_def new_Stack_def overrideLogicalId_def Let_def
  bind_Inr bind_Inl

lemma ConstructsStack_closed:
  "ConstructsStack m env sih =
     bind (findChild (sih sihProps) ''DeployDemoUICondition'') (\<lambda>c1.
     bind (findChild (sih sihProps) ''EnableCorsCondition'') (\<lambda>c2.
     Inr (synthesized m (sih sihProps) c1 c2)))"
  by (simp add: build_defs sihProps_def synthesized_def)

lemma ConstructsStack_Inr:
  assumes "ConstructsStack m env sih = Inr t"
  obtains c1 c2 where
    "findChild (sih sihProps) ''DeployDemoUICondition'' = Inr c1"
    "findChild (sih sihProps) ''EnableCorsCondition'' = Inr c2"
    "t = synthesized m (sih sihProps) c1 c2"
  using assms unfolding ConstructsStack_closed
  by (auto simp: bind_def split: sum.splits)

lemma parameters_of_synthesized:
  "parameters_of (synthesized m node c1 c2) =
     [corsEnabledParameter sihProps, corsOriginParameter sihProps,
      sourceBucketsParameter sihProps, deployDemoUiParameter sihProps,
      logRetentionPeriodParameter sihProps, autoWebPParameter sihProps]"
  by (simp add: parameters_of_def synthesized_def)

lemma outputs_of_synthesized:
  "outputs_of (synthesized m node c1 c2) =
     [\<lparr>out_id = ''ApiEndpoint'', out_logicalId = ''ApiEndpoint'', out_props = ApiEndpoint_props\<rparr>,
      \<lparr>out_id = ''DemoUrl'', out_logicalId = ''DemoUrl'', out_props = DemoUrl_props c1\<rparr>,
      \<lparr>out_id = ''SourceBucketsOutput'', out_logicalId = ''SourceBuckets'',
       out_props = SourceBucketsOutput_props (sourceBucketsParameter sihProps)\<rparr>,
      \<lparr>out_id = ''CorsEnabledOutput'', out_logicalId = ''CorsEnabled'',
       out_props = CorsEnabledOutput_props (corsEnabledParameter sihProps)\<rparr>,
      \<lparr>out_id = ''CorsOriginOutput'', out_logicalId = ''CorsOrigin'',
       out_props = CorsOriginOutput_props (corsOriginParameter sihProps) c2\<rparr>,
      \<lparr>out_id = ''LogRetentionPeriodOutput'', out_logicalId = ''LogRetentionPeriod'',
       out_props = LogRetentionPeriodOutput_props\<rparr>]"
  by (simp add: outputs_of_def synthesized_def)

lemma parameter_groups_synthesized:
  "parameter_groups (synthesized m node c1 c2) =
     [\<lparr>Label_default = ''CORS Options'', Parameters = [''CorsEnabled'', ''CorsOrigin'']\<rparr>,
      \<lparr>Label_default = ''Image Sources'', Parameters = [''SourceBuckets'']\<rparr>,
      \<lparr>Label_default = ''Demo UI'', Parameters = [''DeployDemoUI'']\<rparr>,
      \<lparr>Label_default = ''Event Logging'', Parameters = [''LogRetentionPeriod'']\<rparr>]"
  by (simp add: parameter_groups_def synthesized_def)

lemma declared_parameters_synthesized:
  "declared_parameters (synthesized m node c1 c2) =
     [''CorsEnabled'', ''CorsOrigin'', ''SourceBuckets'', ''DeployDemoUI'',
      ''LogRetentionPeriod'', ''AutoWebP'']"
  by (simp add: declared_parameters_def parameters_of_synthesized sihProps_def)

lemma grouped_parameters_synthesized:
  "grouped_parameters (synthesized m node c1 c2) =
     [''CorsEnabled'', ''CorsOrigin'', ''SourceBuckets'', ''DeployDemoUI'',
      ''LogRetentionPeriod'']"
  by (simp add: grouped_parameters_def parameter_groups_synthesized)

lemma build_with_ServerlessImageHandler:
  "ConstructsStack (load_module env) env' ServerlessImageHandler = Inr (stack_of_env env)"
  by (simp add: ConstructsStack_closed ServerlessImageHandler_def findChild_def
      stack_of_env_def bind_Inr)

section \<open>The parameter groups\<close>

text \<open>
  C1, as the spec states it: the four groups partition the declared parameters. The built
  stack declares \<^verbatim>\<open>AutoWebP\<close> (lines 47 to 52) and lists it in no group (lines 63 to
  80), so the statement fails for the stack built with \<^verbatim>\<open>VERSION=v5.1.0\<close>.
\<close>

theorem groups_partition_counterexample:
  "ConstructsStack (load_module env_v510) env_v510 ServerlessImageHandler
     = Inr (stack_of_env env_v510)
   \<and> \<not> groups_partition_parameters (stack_of_env env_v510)"
proof -
  have "''AutoWebP'' \<in> set (declared_parameters (stack_of_env env_v510))"
    by (simp add: stack_of_env_def declared_parameters_synthesized)
  moreover have "''AutoWebP'' \<notin> set (grouped_parameters (stack_of_env env_v510))"
    by (simp add: stack_of_env_def grouped_parameters_synthesized)
  ultimately have "\<not> groups_partition_parameters (stack_of_env env_v510)"
    unfolding groups_partition_parameters_def by blast
  then show ?thesis
    by (simp add: build_with_ServerlessImageHandler)
qed

text \<open>
  C1, amended: in every stack that the constructor returns, the four groups carry the
  labels CORS Options, Image Sources, Demo UI and Event Logging in this order, no parameter
  is listed twice, every listed name is a declared parameter, and the groups list every
  declared parameter except \<^verbatim>\<open>AutoWebP\<close>, which is declared and in no group.
\<close>

theorem groups_cover_all_but_AutoWebP:
  assumes "ConstructsStack m env sih = Inr t"
  shows "map Label_default (parameter_groups t) =
           [''CORS Options'', ''Image Sources'', ''Demo UI'', ''Event Logging'']
         \<and> distinct (grouped_parameters t)
         \<and> distinct (declared_parameters t)
         \<and> set (grouped_parameters t) = set (declared_parameters t) - {''AutoWebP''}
         \<and> ''AutoWebP'' \<in> set (declared_parameters t)"
proof -
  from assms obtain c1 c2 where t: "t = synthesized m (sih sihProps) c1 c2"
    by (rule ConstructsStack_Inr)
  have l: "map Label_default (parameter_groups t) =
           [''CORS Options'', ''Image Sources'', ''Demo UI'', ''Event Logging'']"
    unfolding t by (simp add: parameter_groups_synthesized)
  have g: "grouped_parameters t = [''CorsEnabled'', ''CorsOrigin'', ''SourceBuckets'', ''DeployDemoUI'',
      ''LogRetentionPeriod'']" unfolding t by (rule grouped_parameters_synthesized)
  have d: "declared_parameters t = [''CorsEnabled'', ''CorsOrigin'', ''SourceBuckets'', ''DeployDemoUI'',
      ''LogRetentionPeriod'', ''AutoWebP'']" unfolding t by (rule declared_parameters_synthesized)
  have "distinct (grouped_parameters t)" unfolding g by simp
  moreover have "distinct (declared_parameters t)" unfolding d by simp
  moreover have "set (grouped_parameters t) = set (declared_parameters t) - {''AutoWebP''}"
    unfolding g d by auto
  moreover have "''AutoWebP'' \<in> set (declared_parameters t)" unfolding d by simp
  ultimately show ?thesis using l by simp
qed

theorem groups_cover_all_but_AutoWebP_witness:
  "ConstructsStack (load_module env_v510) env_v510 ServerlessImageHandler
     = Inr (stack_of_env env_v510)
   \<and> grouped_parameters (stack_of_env env_v510) =
       [''CorsEnabled'', ''CorsOrigin'', ''SourceBuckets'', ''DeployDemoUI'',
        ''LogRetentionPeriod'']
   \<and> set (grouped_parameters (stack_of_env env_v510))
       = set (declared_parameters (stack_of_env env_v510)) - {''AutoWebP''}"
proof -
  have b: "ConstructsStack (load_module env_v510) env_v510 ServerlessImageHandler
     = Inr (stack_of_env env_v510)"
    by (rule build_with_ServerlessImageHandler)
  have g: "grouped_parameters (stack_of_env env_v510) =
       [''CorsEnabled'', ''CorsOrigin'', ''SourceBuckets'', ''DeployDemoUI'',
        ''LogRetentionPeriod'']"
    by (simp add: stack_of_env_def grouped_parameters_synthesized)
  from groups_cover_all_but_AutoWebP [OF b] b g show ?thesis by simp
qed


section \<open>The outputs\<close>

text \<open>
  C2, as the spec states it: exactly five outputs, three of them with an overridden
  identifier. The constructor declares six outputs (lines 107 to 132) and overrides the
  identifier of four (lines 119, 123, 128 and 132).
\<close>

theorem five_outputs_counterexample:
  "ConstructsStack (load_module env_v510) env_v510 ServerlessImageHandler
     = Inr (stack_of_env env_v510)
   \<and> length (outputs_of (stack_of_env env_v510)) \<noteq> 5
   \<and> length (filter overridden (outputs_of (stack_of_env env_v510))) \<noteq> 3"
  by (simp add: build_with_ServerlessImageHandler stack_of_env_def outputs_of_synthesized
      overridden_def)

text \<open>
  C2, amended: every stack that the constructor returns contains exactly six outputs, each
  once, with distinct construction names and distinct logical ids. The four
  identifier-overridden outputs expose the logical ids \<^verbatim>\<open>SourceBuckets\<close>,
  \<^verbatim>\<open>CorsEnabled\<close>, \<^verbatim>\<open>CorsOrigin\<close> and \<^verbatim>\<open>LogRetentionPeriod\<close> instead of their
  construction names; \<^verbatim>\<open>ApiEndpoint\<close> and \<^verbatim>\<open>DemoUrl\<close> keep theirs.
\<close>

theorem six_outputs_four_overridden:
  assumes "ConstructsStack m env sih = Inr t"
  shows "map (\<lambda>out. (out_id out, out_logicalId out)) (outputs_of t) =
           [(''ApiEndpoint'', ''ApiEndpoint''), (''DemoUrl'', ''DemoUrl''),
            (''SourceBucketsOutput'', ''SourceBuckets''),
            (''CorsEnabledOutput'', ''CorsEnabled''),
            (''CorsOriginOutput'', ''CorsOrigin''),
            (''LogRetentionPeriodOutput'', ''LogRetentionPeriod'')]
         \<and> length (outputs_of t) = 6
         \<and> length (filter overridden (outputs_of t)) = 4
         \<and> distinct (map out_id (outputs_of t))
         \<and> distinct (map out_logicalId (outputs_of t))
         \<and> map out_logicalId (filter overridden (outputs_of t)) =
             [''SourceBuckets'', ''CorsEnabled'', ''CorsOrigin'', ''LogRetentionPeriod'']"
proof -
  from assms obtain c1 c2 where t: "t = synthesized m (sih sihProps) c1 c2"
    by (rule ConstructsStack_Inr)
  show ?thesis
    unfolding t by (simp add: outputs_of_synthesized overridden_def)
qed

theorem six_outputs_four_overridden_witness:
  "ConstructsStack (load_module env_v510) env_v510 ServerlessImageHandler
     = Inr (stack_of_env env_v510)
   \<and> map out_logicalId (outputs_of (stack_of_env env_v510)) =
       [''ApiEndpoint'', ''DemoUrl'', ''SourceBuckets'', ''CorsEnabled'', ''CorsOrigin'',
        ''LogRetentionPeriod'']"
proof -
  have b: "ConstructsStack (load_module env_v510) env_v510 ServerlessImageHandler
     = Inr (stack_of_env env_v510)"
    by (rule build_with_ServerlessImageHandler)
  have "map out_logicalId (outputs_of (stack_of_env env_v510)) =
          map snd (map (\<lambda>out. (out_id out, out_logicalId out))
            (outputs_of (stack_of_env env_v510)))"
    by (simp add: comp_def)
  with six_outputs_four_overridden [OF b] b show ?thesis by simp
qed

lemma findChild_Inr:
  "findChild cs i = Inr c \<Longrightarrow>
     find (\<lambda>c. construct_id c = i) cs = Some c \<and> c \<in> set cs \<and> construct_id c = i"
  by (auto simp: findChild_def find_Some_iff split: option.splits)

lemma findChild_find:
  "find (\<lambda>c. construct_id c = i) cs = Some c \<Longrightarrow> findChild cs i = Inr c"
  by (simp add: findChild_def)

text \<open>
  An output that holds a plain construct in the place of its condition is not gated: with a
  nested construct whose child \<^verbatim>\<open>EnableCorsCondition\<close> is no condition, the output
  \<^verbatim>\<open>CorsOriginOutput\<close> is emitted although the engine finds no condition true.
\<close>

lemma guard_that_is_no_condition:
  "map_sum id (\<lambda>t. map (\<lambda>out. (out_id out, emitted (\<lambda>i. False) out)) (outputs_of t))
     (ConstructsStack m env
        (\<lambda>ps. [CfnCondition ''DeployDemoUICondition'', Construct ''EnableCorsCondition'' []]))
   = Inr [(''ApiEndpoint'', Some True), (''DemoUrl'', Some False),
          (''SourceBucketsOutput'', Some True), (''CorsEnabledOutput'', Some True),
          (''CorsOriginOutput'', Some True), (''LogRetentionPeriodOutput'', Some True)]"
  by (simp add: ConstructsStack_closed findChild_def bind_Inr outputs_of_synthesized
      emitted_def ApiEndpoint_props_def DemoUrl_props_def SourceBucketsOutput_props_def
      CorsEnabledOutput_props_def CorsOriginOutput_props_def
      LogRetentionPeriodOutput_props_def)

text \<open>
  C5: in every stack that the constructor returns, \<^verbatim>\<open>DemoUrl\<close> is guarded by the child
  of the nested construct that has the id \<^verbatim>\<open>DeployDemoUICondition\<close>, and
  \<^verbatim>\<open>CorsOriginOutput\<close> by the child that has the id \<^verbatim>\<open>EnableCorsCondition\<close>; both
  children exist. The other four outputs carry no condition and are always emitted. Each of
  the two guarded outputs gets the engine's verdict on what guards it: when that is a
  condition, the output is emitted exactly when the condition holds.
\<close>

theorem outputs_guarded_by_looked_up_conditions:
  assumes "ConstructsStack m env sih = Inr t"
  shows "\<exists>node c1 c2.
           map_of (children t) ''ServerlessImageHandler'' = Some (ConstructChild node)
         \<and> find (\<lambda>c. construct_id c = ''DeployDemoUICondition'') node = Some c1
         \<and> c1 \<in> set node
         \<and> construct_id c1 = ''DeployDemoUICondition''
         \<and> find (\<lambda>c. construct_id c = ''EnableCorsCondition'') node = Some c2
         \<and> c2 \<in> set node
         \<and> construct_id c2 = ''EnableCorsCondition''
         \<and> map (\<lambda>out. (out_id out, out_condition (out_props out))) (outputs_of t) =
             [(''ApiEndpoint'', None), (''DemoUrl'', Some c1), (''SourceBucketsOutput'', None),
              (''CorsEnabledOutput'', None), (''CorsOriginOutput'', Some c2),
              (''LogRetentionPeriodOutput'', None)]
         \<and> (\<forall>holds. map (\<lambda>out. (out_id out, emitted holds out)) (outputs_of t) =
             [(''ApiEndpoint'', Some True), (''DemoUrl'', verdict holds c1),
              (''SourceBucketsOutput'', Some True), (''CorsEnabledOutput'', Some True),
              (''CorsOriginOutput'', verdict holds c2),
              (''LogRetentionPeriodOutput'', Some True)])
         \<and> (\<forall>holds i. c1 = CfnCondition i \<longrightarrow> verdict holds c1 = Some (holds i))
         \<and> (\<forall>holds i. c2 = CfnCondition i \<longrightarrow> verdict holds c2 = Some (holds i))"
proof -
  from assms obtain c1 c2 where
    c1: "findChild (sih sihProps) ''DeployDemoUICondition'' = Inr c1" and
    c2: "findChild (sih sihProps) ''EnableCorsCondition'' = Inr c2" and
    t: "t = synthesized m (sih sihProps) c1 c2"
    by (rule ConstructsStack_Inr)
  note f1 = findChild_Inr [OF c1] and f2 = findChild_Inr [OF c2]
  have n: "map_of (children t) ''ServerlessImageHandler'' = Some (ConstructChild (sih sihProps))"
    unfolding t by (simp add: synthesized_def)
  have conds: "map (\<lambda>out. (out_id out, out_condition (out_props out))) (outputs_of t) =
             [(''ApiEndpoint'', None), (''DemoUrl'', Some c1), (''SourceBucketsOutput'', None),
              (''CorsEnabledOutput'', None), (''CorsOriginOutput'', Some c2),
              (''LogRetentionPeriodOutput'', None)]"
    unfolding t
    by (simp add: outputs_of_synthesized ApiEndpoint_props_def DemoUrl_props_def
        SourceBucketsOutput_props_def CorsEnabledOutput_props_def CorsOriginOutput_props_def
        LogRetentionPeriodOutput_props_def)
  have em: "map (\<lambda>out. (out_id out, emitted holds out)) (outputs_of t) =
             [(''ApiEndpoint'', Some True), (''DemoUrl'', verdict holds c1),
              (''SourceBucketsOutput'', Some True), (''CorsEnabledOutput'', Some True),
              (''CorsOriginOutput'', verdict holds c2),
              (''LogRetentionPeriodOutput'', Some True)]" for holds
    unfolding t
    by (simp add: outputs_of_synthesized emitted_def ApiEndpoint_props_def DemoUrl_props_def
        SourceBucketsOutput_props_def CorsEnabledOutput_props_def CorsOriginOutput_props_def
        LogRetentionPeriodOutput_props_def)
  have v: "c = CfnCondition i \<longrightarrow> verdict holds c = Some (holds i)" for c holds i
    by simp
  show ?thesis
    apply (rule exI [of _ "sih sihProps"], rule exI [of _ c1], rule exI [of _ c2])
    apply (intro conjI allI)
              apply (rule n)
             apply (rule f1 [THEN conjunct1])
            apply (rule f1 [THEN conjunct2, THEN conjunct1])
           apply (rule f1 [THEN conjunct2, THEN conjunct2])
          apply (rule f2 [THEN conjunct1])
         apply (rule f2 [THEN conjunct2, THEN conjunct1])
        apply (rule f2 [THEN conjunct2, THEN conjunct2])
       apply (rule conds)
      apply (rule em)
     apply (rule v)
    apply (rule v)
    done
qed

theorem outputs_guarded_by_looked_up_conditions_witness:
  "ConstructsStack (load_module env_v510) env_v510 ServerlessImageHandler
     = Inr (stack_of_env env_v510)
   \<and> map (\<lambda>out. (out_id out, emitted (\<lambda>i. i = ''EnableCorsCondition'') out))
       (outputs_of (stack_of_env env_v510)) =
       [(''ApiEndpoint'', Some True), (''DemoUrl'', Some False),
        (''SourceBucketsOutput'', Some True), (''CorsEnabledOutput'', Some True),
        (''CorsOriginOutput'', Some True), (''LogRetentionPeriodOutput'', Some True)]"
proof -
  have b: "ConstructsStack (load_module env_v510) env_v510 ServerlessImageHandler
     = Inr (stack_of_env env_v510)"
    by (rule build_with_ServerlessImageHandler)
  have nested: "map_of (children (stack_of_env env_v510)) ''ServerlessImageHandler''
                  = Some (ConstructChild (ServerlessImageHandler sihProps))"
    by (simp add: stack_of_env_def synthesized_def)
  from outputs_guarded_by_looked_up_conditions [OF b] obtain node c1 c2 where
    *: "map_of (children (stack_of_env env_v510)) ''ServerlessImageHandler''
          = Some (ConstructChild node)
         \<and> find (\<lambda>c. construct_id c = ''DeployDemoUICondition'') node = Some c1
         \<and> c1 \<in> set node
         \<and> construct_id c1 = ''DeployDemoUICondition''
         \<and> find (\<lambda>c. construct_id c = ''EnableCorsCondition'') node = Some c2
         \<and> c2 \<in> set node
         \<and> construct_id c2 = ''EnableCorsCondition''
         \<and> map (\<lambda>out. (out_id out, out_condition (out_props out)))
               (outputs_of (stack_of_env env_v510)) =
             [(''ApiEndpoint'', None), (''DemoUrl'', Some c1), (''SourceBucketsOutput'', None),
              (''CorsEnabledOutput'', None), (''CorsOriginOutput'', Some c2),
              (''LogRetentionPeriodOutput'', None)]
         \<and> (\<forall>holds. map (\<lambda>out. (out_id out, emitted holds out))
               (outputs_of (stack_of_env env_v510)) =
             [(''ApiEndpoint'', Some True), (''DemoUrl'', verdict holds c1),
              (''SourceBucketsOutput'', Some True), (''CorsEnabledOutput'', Some True),
              (''CorsOriginOutput'', verdict holds c2),
              (''LogRetentionPeriodOutput'', Some True)])
         \<and> (\<forall>holds i. c1 = CfnCondition i \<longrightarrow> verdict holds c1 = Some (holds i))
         \<and> (\<forall>holds i. c2 = CfnCondition i \<longrightarrow> verdict holds c2 = Some (holds i))"
    by (elim exE) (rule that)
  from * have n: "map_of (children (stack_of_env env_v510)) ''ServerlessImageHandler''
          = Some (ConstructChild node)"
    by (elim conjE)
  with nested have node: "node = ServerlessImageHandler sihProps"
    by simp
  from * have "find (\<lambda>c. construct_id c = ''DeployDemoUICondition'') node = Some c1"
    by (elim conjE)
  then have c1: "c1 = CfnCondition ''DeployDemoUICondition''"
    unfolding node by (simp add: ServerlessImageHandler_def)
  from * have "find (\<lambda>c. construct_id c = ''EnableCorsCondition'') node = Some c2"
    by (elim conjE)
  then have c2: "c2 = CfnCondition ''EnableCorsCondition''"
    unfolding node by (simp add: ServerlessImageHandler_def)
  from * have em: "\<forall>holds. map (\<lambda>out. (out_id out, emitted holds out))
               (outputs_of (stack_of_env env_v510)) =
             [(''ApiEndpoint'', Some True), (''DemoUrl'', verdict holds c1),
              (''SourceBucketsOutput'', Some True), (''CorsEnabledOutput'', Some True),
              (''CorsOriginOutput'', verdict holds c2),
              (''LogRetentionPeriodOutput'', Some True)]"
    by (elim conjE)
  from em have "map (\<lambda>out. (out_id out, emitted (\<lambda>i. i = ''EnableCorsCondition'') out))
       (outputs_of (stack_of_env env_v510)) =
       [(''ApiEndpoint'', Some True),
        (''DemoUrl'', verdict (\<lambda>i. i = ''EnableCorsCondition'') c1),
        (''SourceBucketsOutput'', Some True), (''CorsEnabledOutput'', Some True),
        (''CorsOriginOutput'', verdict (\<lambda>i. i = ''EnableCorsCondition'') c2),
        (''LogRetentionPeriodOutput'', Some True)]"
    by (rule spec)
  with b c1 c2 show ?thesis by simp
qed

section \<open>The parameters\<close>

lemma registers_basics_synthesized:
  "list_all registers_basics (parameters_of (synthesized m node c1 c2))"
  by (simp add: parameters_of_synthesized sihProps_def registers_basics_def
      corsEnabledParameter_props_def corsOriginParameter_props_def
      sourceBucketsParameter_props_def deployDemoUiParameter_props_def
      logRetentionPeriodParameter_props_def autoWebPParameter_props_def)

lemma constraints_synthesized:
  "map (\<lambda>p. (logicalId p, allowedValues (props p), allowedPattern (props p)))
     (parameters_of (synthesized m node c1 c2)) =
   [(''CorsEnabled'', Some [''Yes'', ''No''], None), (''CorsOrigin'', None, None),
    (''SourceBuckets'', None, Some ''.+''), (''DeployDemoUI'', Some [''Yes'', ''No''], None),
    (''LogRetentionPeriod'',
     Some [''1'', ''3'', ''5'', ''7'', ''14'', ''30'', ''60'', ''90'', ''120'', ''150'', ''180'',
           ''365'', ''400'', ''545'', ''731'', ''1827'', ''3653''], None),
    (''AutoWebP'', Some [''Yes'', ''No''], None)]"
  by (simp add: parameters_of_synthesized sihProps_def
      corsEnabledParameter_props_def corsOriginParameter_props_def
      sourceBucketsParameter_props_def deployDemoUiParameter_props_def
      logRetentionPeriodParameter_props_def autoWebPParameter_props_def)

lemma has_constraint_synthesized:
  "map (\<lambda>p. has_constraint (props p)) (parameters_of (synthesized m node c1 c2)) =
     [True, False, True, True, True, True]"
  by (simp add: parameters_of_synthesized sihProps_def has_constraint_def
      corsEnabledParameter_props_def corsOriginParameter_props_def
      sourceBucketsParameter_props_def deployDemoUiParameter_props_def
      logRetentionPeriodParameter_props_def autoWebPParameter_props_def)

text \<open>
  C3, as the spec states it: each of the six parameters registers a name, a type, a
  description, a default and a constraint. \<^verbatim>\<open>CorsOrigin\<close> (lines 24 to 28) has neither
  \<^verbatim>\<open>allowedValues\<close> nor \<^verbatim>\<open>allowedPattern\<close>.
\<close>

theorem every_parameter_constrained_counterexample:
  "ConstructsStack (load_module env_v510) env_v510 ServerlessImageHandler
     = Inr (stack_of_env env_v510)
   \<and> \<not> list_all fully_declared (parameters_of (stack_of_env env_v510))
   \<and> map_option (\<lambda>p. (allowedValues (props p), allowedPattern (props p)))
         (parameter_named (stack_of_env env_v510) ''CorsOrigin'') = Some (None, None)"
  by (simp add: build_with_ServerlessImageHandler stack_of_env_def parameters_of_synthesized
      parameter_named_def sihProps_def fully_declared_def has_constraint_def
      corsOriginParameter_props_def)

text \<open>
  C3, amended: each of the six parameters registers a name, a type that is \<^verbatim>\<open>String\<close>
  or \<^verbatim>\<open>Number\<close>, a description and a default. \<^verbatim>\<open>CorsEnabled\<close>, \<^verbatim>\<open>DeployDemoUI\<close>,
  \<^verbatim>\<open>LogRetentionPeriod\<close> and \<^verbatim>\<open>AutoWebP\<close> declare an allowed-value set,
  \<^verbatim>\<open>SourceBuckets\<close> declares the pattern \<^verbatim>\<open>.+\<close>, and \<^verbatim>\<open>CorsOrigin\<close> declares
  neither.
\<close>

theorem parameters_declared_CorsOrigin_unconstrained:
  assumes "ConstructsStack m env sih = Inr t"
  shows "length (parameters_of t) = 6
         \<and> list_all registers_basics (parameters_of t)
         \<and> map (\<lambda>p. (logicalId p, allowedValues (props p), allowedPattern (props p)))
             (parameters_of t) =
           [(''CorsEnabled'', Some [''Yes'', ''No''], None), (''CorsOrigin'', None, None),
            (''SourceBuckets'', None, Some ''.+''),
            (''DeployDemoUI'', Some [''Yes'', ''No''], None),
            (''LogRetentionPeriod'',
             Some [''1'', ''3'', ''5'', ''7'', ''14'', ''30'', ''60'', ''90'', ''120'', ''150'',
                   ''180'', ''365'', ''400'', ''545'', ''731'', ''1827'', ''3653''], None),
            (''AutoWebP'', Some [''Yes'', ''No''], None)]
         \<and> map (\<lambda>p. has_constraint (props p)) (parameters_of t) =
             [True, False, True, True, True, True]"
proof -
  from assms obtain c1 c2 where t: "t = synthesized m (sih sihProps) c1 c2"
    by (rule ConstructsStack_Inr)
  have "length (parameters_of t) = 6"
    unfolding t by (simp add: parameters_of_synthesized)
  then show ?thesis
    unfolding t
    using registers_basics_synthesized constraints_synthesized has_constraint_synthesized
    by simp
qed

theorem parameters_declared_CorsOrigin_unconstrained_witness:
  "ConstructsStack (load_module env_v510) env_v510 ServerlessImageHandler
     = Inr (stack_of_env env_v510)
   \<and> length (parameters_of (stack_of_env env_v510)) = 6
   \<and> list_all registers_basics (parameters_of (stack_of_env env_v510))"
proof -
  have b: "ConstructsStack (load_module env_v510) env_v510 ServerlessImageHandler
     = Inr (stack_of_env env_v510)"
    by (rule build_with_ServerlessImageHandler)
  from parameters_declared_CorsOrigin_unconstrained [OF b] b show ?thesis by simp
qed

text \<open>
  The pattern \<^verbatim>\<open>.+\<close> accepts the non-empty values without a line terminator.
\<close>

lemma matches_pattern_dot_plus:
  "matches_pattern ''.+'' v = (v \<noteq> [] \<and> list_all (atom_matches AnyChar) v)"
proof (cases v)
  case Nil
  then show ?thesis
    by (simp add: matches_pattern_def operator_char_def atom_of_def)
next
  case (Cons c cs)
  have "matches [(AnyChar, ZeroOrMore)] s = list_all (atom_matches AnyChar) s" for s
    by (induction s) auto
  with Cons show ?thesis
    by (simp add: matches_pattern_def operator_char_def atom_of_def)
qed

lemma defaults_ok_synthesized:
  "list_all default_satisfies_constraint (parameters_of (synthesized m node c1 c2))"
  by (simp add: parameters_of_synthesized sihProps_def default_satisfies_constraint_def
      satisfies_constraint_def matches_pattern_dot_plus
      corsEnabledParameter_props_def corsOriginParameter_props_def
      sourceBucketsParameter_props_def deployDemoUiParameter_props_def
      logRetentionPeriodParameter_props_def autoWebPParameter_props_def)

text \<open>
  C4: the default of each of the six parameters satisfies the parameter's own constraint:
  it is one of the allowed values where there are any, and it matches the allowed pattern
  where there is one.
\<close>

theorem defaults_satisfy_constraints:
  assumes "ConstructsStack m env sih = Inr t"
  shows "length (parameters_of t) = 6
         \<and> list_all default_satisfies_constraint (parameters_of t)"
proof -
  from assms obtain c1 c2 where t: "t = synthesized m (sih sihProps) c1 c2"
    by (rule ConstructsStack_Inr)
  show ?thesis
    unfolding t using defaults_ok_synthesized by (simp add: parameters_of_synthesized)
qed

theorem defaults_satisfy_constraints_witness:
  "ConstructsStack (load_module env_v510) env_v510 ServerlessImageHandler
     = Inr (stack_of_env env_v510)
   \<and> list_all default_satisfies_constraint (parameters_of (stack_of_env env_v510))
   \<and> matches_pattern ''.+'' ''defaultBucket, bucketNo2, bucketNo3, ...''
   \<and> \<not> matches_pattern ''.+'' ''''"
proof -
  have b: "ConstructsStack (load_module env_v510) env_v510 ServerlessImageHandler
     = Inr (stack_of_env env_v510)"
    by (rule build_with_ServerlessImageHandler)
  have "matches_pattern ''.+'' ''defaultBucket, bucketNo2, bucketNo3, ...''"
    by (simp add: matches_pattern_def operator_char_def atom_of_def)
  moreover have "\<not> matches_pattern ''.+'' ''''"
    by (simp add: matches_pattern_def operator_char_def atom_of_def)
  ultimately show ?thesis
    using defaults_satisfy_constraints [OF b] b by simp
qed

text \<open>
  C6: with no value supplied, \<^verbatim>\<open>CorsEnabled\<close> is \<^verbatim>\<open>No\<close>, \<^verbatim>\<open>SourceBuckets\<close> is the
  placeholder text, \<^verbatim>\<open>DeployDemoUI\<close> is \<^verbatim>\<open>Yes\<close>, \<^verbatim>\<open>LogRetentionPeriod\<close> is the
  numeral 1 and \<^verbatim>\<open>AutoWebP\<close> is \<^verbatim>\<open>No\<close>; \<^verbatim>\<open>CorsOrigin\<close>, which the claim leaves
  out, is \<^verbatim>\<open>*\<close>.
\<close>

theorem defaults_when_nothing_supplied:
  assumes "ConstructsStack m env sih = Inr t"
  shows "map (\<lambda>p. (logicalId p, effective_value Map.empty p)) (parameters_of t) =
           [(''CorsEnabled'', Some ''No''), (''CorsOrigin'', Some ''*''),
            (''SourceBuckets'', Some ''defaultBucket, bucketNo2, bucketNo3, ...''),
            (''DeployDemoUI'', Some ''Yes''), (''LogRetentionPeriod'', Some ''1''),
            (''AutoWebP'', Some ''No'')]
         \<and> Option.bind (parameter_named t ''LogRetentionPeriod'')
              (\<lambda>p. Option.bind (effective_value Map.empty p) decimal) = Some 1"
proof -
  from assms obtain c1 c2 where t: "t = synthesized m (sih sihProps) c1 c2"
    by (rule ConstructsStack_Inr)
  show ?thesis
    unfolding t
    by (simp add: parameters_of_synthesized parameter_named_def sihProps_def
        effective_value_def decimal_def digit_def
        corsEnabledParameter_props_def corsOriginParameter_props_def
        sourceBucketsParameter_props_def deployDemoUiParameter_props_def
        logRetentionPeriodParameter_props_def autoWebPParameter_props_def)
qed

theorem defaults_when_nothing_supplied_witness:
  "ConstructsStack (load_module env_v510) env_v510 ServerlessImageHandler
     = Inr (stack_of_env env_v510)
   \<and> map (effective_value Map.empty) (parameters_of (stack_of_env env_v510)) =
       [Some ''No'', Some ''*'', Some ''defaultBucket, bucketNo2, bucketNo3, ...'',
        Some ''Yes'', Some ''1'', Some ''No'']"
proof -
  have b: "ConstructsStack (load_module env_v510) env_v510 ServerlessImageHandler
     = Inr (stack_of_env env_v510)"
    by (rule build_with_ServerlessImageHandler)
  have "map (effective_value Map.empty) (parameters_of (stack_of_env env_v510)) =
          map snd (map (\<lambda>p. (logicalId p, effective_value Map.empty p))
            (parameters_of (stack_of_env env_v510)))"
    by (simp add: comp_def)
  with defaults_when_nothing_supplied [OF b] b show ?thesis by simp
qed

text \<open>
  C9: \<^verbatim>\<open>LogRetentionPeriod\<close> has type \<^verbatim>\<open>Number\<close> and exactly the seventeen allowed
  values 1, 3, 5, 7, 14, 30, 60, 90, 120, 150, 180, 365, 400, 545, 731, 1827 and 3653; the
  other five parameters have type \<^verbatim>\<open>String\<close>.
\<close>

theorem LogRetentionPeriod_is_the_only_Number:
  assumes "ConstructsStack m env sih = Inr t"
  shows "map_option (\<lambda>p. (type (props p), allowedValues (props p)))
           (parameter_named t ''LogRetentionPeriod'') =
         Some (Some ''Number'',
               Some [''1'', ''3'', ''5'', ''7'', ''14'', ''30'', ''60'', ''90'', ''120'', ''150'',
                     ''180'', ''365'', ''400'', ''545'', ''731'', ''1827'', ''3653''])
         \<and> map_option (map decimal)
             (Option.bind (parameter_named t ''LogRetentionPeriod'')
                (\<lambda>p. allowedValues (props p))) =
           Some (map Some [1, 3, 5, 7, 14, 30, 60, 90, 120, 150, 180, 365, 400, 545, 731,
                           1827, 3653])
         \<and> map (\<lambda>p. (logicalId p, type (props p)))
             (filter (\<lambda>p. logicalId p \<noteq> ''LogRetentionPeriod'') (parameters_of t)) =
           [(''CorsEnabled'', Some ''String''), (''CorsOrigin'', Some ''String''),
            (''SourceBuckets'', Some ''String''), (''DeployDemoUI'', Some ''String''),
            (''AutoWebP'', Some ''String'')]"
proof -
  from assms obtain c1 c2 where t: "t = synthesized m (sih sihProps) c1 c2"
    by (rule ConstructsStack_Inr)
  have p: "parameter_named t ''LogRetentionPeriod'' = Some (logRetentionPeriodParameter sihProps)"
    unfolding t by (simp add: parameter_named_def parameters_of_synthesized sihProps_def)
  have d: "map decimal [''1'', ''3'', ''5'', ''7'', ''14'', ''30'', ''60'', ''90'', ''120'', ''150'',
                     ''180'', ''365'', ''400'', ''545'', ''731'', ''1827'', ''3653'']
      = map Some [1, 3, 5, 7, 14, 30, 60, 90, 120, 150, 180, 365, 400, 545, 731,
                           1827, 3653]"
    by (simp add: decimal_def digit_def)
  have o: "map (\<lambda>p. (logicalId p, type (props p)))
             (filter (\<lambda>p. logicalId p \<noteq> ''LogRetentionPeriod'') (parameters_of t)) =
           [(''CorsEnabled'', Some ''String''), (''CorsOrigin'', Some ''String''),
            (''SourceBuckets'', Some ''String''), (''DeployDemoUI'', Some ''String''),
            (''AutoWebP'', Some ''String'')]"
    unfolding t
    by (simp add: parameters_of_synthesized sihProps_def
        corsEnabledParameter_props_def corsOriginParameter_props_def
        sourceBucketsParameter_props_def deployDemoUiParameter_props_def
        autoWebPParameter_props_def)
  from p d o show ?thesis
    by (simp add: sihProps_def logRetentionPeriodParameter_props_def)
qed

theorem LogRetentionPeriod_is_the_only_Number_witness:
  "ConstructsStack (load_module env_v510) env_v510 ServerlessImageHandler
     = Inr (stack_of_env env_v510)
   \<and> map_option (\<lambda>p. type (props p))
       (parameter_named (stack_of_env env_v510) ''LogRetentionPeriod'') = Some (Some ''Number'')
   \<and> map_option (\<lambda>p. map_option length (allowedValues (props p)))
       (parameter_named (stack_of_env env_v510) ''LogRetentionPeriod'') = Some (Some 17)"
proof -
  have b: "ConstructsStack (load_module env_v510) env_v510 ServerlessImageHandler
     = Inr (stack_of_env env_v510)"
    by (rule build_with_ServerlessImageHandler)
  from LogRetentionPeriod_is_the_only_Number [OF b] b show ?thesis
    by (auto simp: map_option_case split: option.splits)
qed

section \<open>The version and the template options\<close>

text \<open>
  C8: when \<^verbatim>\<open>VERSION\<close> is set in the environment the module is loaded in, the
  description of the built stack is the fixed text followed by exactly that value, and the
  template format version is \<^verbatim>\<open>2010-09-09\<close>.
\<close>

theorem description_interpolates_VERSION:
  assumes "env ''VERSION'' = Some v"
    and "ConstructsStack (load_module env) env' sih = Inr t"
  shows "templateOptions_description t = Some (description_text @ v)
         \<and> templateOptions_templateFormatVersion t = Some ''2010-09-09''"
proof -
  from assms(2) obtain c1 c2 where
    t: "t = synthesized (load_module env) (sih sihProps) c1 c2"
    by (rule ConstructsStack_Inr)
  show ?thesis
    unfolding t using assms(1)
    by (simp add: synthesized_def load_module_def template_literal_def)
qed

theorem description_interpolates_VERSION_witness:
  "env_v510 ''VERSION'' = Some ''v5.1.0''
   \<and> ConstructsStack (load_module env_v510) env_unset ServerlessImageHandler
       = Inr (stack_of_env env_v510)
   \<and> templateOptions_description (stack_of_env env_v510) =
       Some ''(SO0023) - Serverless Image Handler with aws-solutions-constructs: This template deploys and configures a serverless architecture that is optimized for dynamic image manipulation and delivery at low latency and cost. Leverages SharpJS for image processing. Template version v5.1.0''
   \<and> templateOptions_templateFormatVersion (stack_of_env env_v510) = Some ''2010-09-09''"
proof -
  have v: "env_v510 ''VERSION'' = Some ''v5.1.0''"
    by (simp add: env_v510_def)
  have b: "ConstructsStack (load_module env_v510) env_unset ServerlessImageHandler
     = Inr (stack_of_env env_v510)"
    by (rule build_with_ServerlessImageHandler)
  from description_interpolates_VERSION [OF v b] v b show ?thesis
    by (simp add: description_text_def)
qed

text \<open>
  C10: \<^verbatim>\<open>VERSION\<close> is read from the process environment when the module is loaded, so
  the description ends with the value that the environment had then, whatever it is at the
  time of the constructor call. If the variable was unset at load, the constructor still
  returns a stack whenever the nested construct has the two children that are looked up,
  and the description ends with the text \<^verbatim>\<open>undefined\<close>.
\<close>

theorem VERSION_read_at_load_undefined_when_unset:
  assumes "find (\<lambda>c. construct_id c = ''DeployDemoUICondition'') (sih sihProps) = Some c1"
    and "find (\<lambda>c. construct_id c = ''EnableCorsCondition'') (sih sihProps) = Some c2"
  shows "\<exists>t. ConstructsStack (load_module env) env' sih = Inr t
             \<and> templateOptions_description t =
                 Some (description_text @
                   (case env ''VERSION'' of None \<Rightarrow> ''undefined'' | Some v \<Rightarrow> v))"
  using findChild_find [OF assms(1)] findChild_find [OF assms(2)]
  by (simp add: ConstructsStack_closed bind_Inr synthesized_def load_module_def
      template_literal_def)

theorem VERSION_read_at_load_undefined_when_unset_witness:
  "env_unset ''VERSION'' = None
   \<and> env_v510 ''VERSION'' = Some ''v5.1.0''
   \<and> ConstructsStack (load_module env_unset) env_v510 ServerlessImageHandler
       = Inr (stack_of_env env_unset)
   \<and> templateOptions_description (stack_of_env env_unset) =
       Some ''(SO0023) - Serverless Image Handler with aws-solutions-constructs: This template deploys and configures a serverless architecture that is optimized for dynamic image manipulation and delivery at low latency and cost. Leverages SharpJS for image processing. Template version undefined''
   \<and> ConstructsStack (load_module env_v510) env_unset ServerlessImageHandler
       = Inr (stack_of_env env_v510)
   \<and> templateOptions_description (stack_of_env env_v510) =
       Some ''(SO0023) - Serverless Image Handler with aws-solutions-constructs: This template deploys and configures a serverless architecture that is optimized for dynamic image manipulation and delivery at low latency and cost. Leverages SharpJS for image processing. Template version v5.1.0''"
proof -
  have u: "env_unset ''VERSION'' = None"
    by (simp add: env_unset_def)
  have v: "env_v510 ''VERSION'' = Some ''v5.1.0''"
    by (simp add: env_v510_def)
  have c1: "find (\<lambda>c. construct_id c = ''DeployDemoUICondition'')
              (ServerlessImageHandler sihProps) = Some (CfnCondition ''DeployDemoUICondition'')"
    by (simp add: ServerlessImageHandler_def)
  have c2: "find (\<lambda>c. construct_id c = ''EnableCorsCondition'')
              (ServerlessImageHandler sihProps) = Some (CfnCondition ''EnableCorsCondition'')"
    by (simp add: ServerlessImageHandler_def)
  have b1: "ConstructsStack (load_module env_unset) env_v510 ServerlessImageHandler
       = Inr (stack_of_env env_unset)"
    by (rule build_with_ServerlessImageHandler)
  have b2: "ConstructsStack (load_module env_v510) env_unset ServerlessImageHandler
       = Inr (stack_of_env env_v510)"
    by (rule build_with_ServerlessImageHandler)
  from VERSION_read_at_load_undefined_when_unset [of ServerlessImageHandler
      "CfnCondition ''DeployDemoUICondition''" "CfnCondition ''EnableCorsCondition''"
      env_unset env_v510, OF c1 c2] u b1
  have d1: "templateOptions_description (stack_of_env env_unset) =
              Some (description_text @ ''undefined'')"
    by simp
  from VERSION_read_at_load_undefined_when_unset [of ServerlessImageHandler
      "CfnCondition ''DeployDemoUICondition''" "CfnCondition ''EnableCorsCondition''"
      env_v510 env_unset, OF c1 c2] v b2
  have d2: "templateOptions_description (stack_of_env env_v510) =
              Some (description_text @ ''v5.1.0'')"
    by simp
  from u v b1 b2 d1 d2 show ?thesis
    by (simp add: description_text_def)
qed

end
